theory Spec2Isabelle
  imports Main "HOL-Library.Finite_Map" "HOL-Library.Multiset"
begin

section \<open>Data model of main.go\<close>

text \<open>
  Go strings are byte sequences and are modelled as \<open>string\<close>. A Go
  \<open>map[string]T\<close> is a finite map; a nil map reads like the empty map (every
  lookup misses, \<open>len\<close> is 0), so both are \<open>fmempty\<close>.
\<close>

record vulnerabilityInfo =
  vulnerability :: string
  namespace :: string
  severity :: string

record vulnerabilitiesWhitelist =
  GeneralWhitelist :: "(string, string) fmap"
  Images :: "(string, (string, string) fmap) fmap"

text \<open>An \<open>error\<close> value, identified with the text its \<open>Error()\<close> method returns.\<close>

datatype go_error = GoError (message: string)

text \<open>The builtin \<open>len\<close> on a map, and the two-valued lookup \<open>_, exists := m[k]\<close>.\<close>

definition len_map :: "('k, 'v) fmap \<Rightarrow> nat" where
  "len_map m = fcard (fmdom m)"

definition exists_key :: "('k, 'v) fmap \<Rightarrow> 'k \<Rightarrow> bool" where
  "exists_key m k = (case fmlookup m k of None \<Rightarrow> False | Some v \<Rightarrow> True)"

section \<open>strings.Split and fmt formatting\<close>

text \<open>
  \<open>strings.Split(s, sep)\<close> for a separator of one byte, which is how main.go calls
  it (\<open>":"\<close>): the pieces of \<open>s\<close> between the occurrences of the separator, in
  order. \<open>split_from cur sep s\<close> scans \<open>s\<close> with the piece read so far in \<open>cur\<close>.
\<close>

fun split_from :: "string \<Rightarrow> char \<Rightarrow> string \<Rightarrow> string list" where
  "split_from cur sep [] = [cur]"
| "split_from cur sep (c # s) =
     (if c = sep then cur # split_from [] sep s else split_from (cur @ [c]) sep s)"

definition strings_Split :: "string \<Rightarrow> char \<Rightarrow> string list" where
  "strings_Split s sep = split_from [] sep s"

text \<open>
  The verb \<open>%s\<close> applied to a \<open>[]string\<close>: the elements separated by one space,
  in square brackets.
\<close>

fun join_space :: "string list \<Rightarrow> string" where
  "join_space [] = []"
| "join_space [x] = x"
| "join_space (x # y # ys) = x @ '' '' @ join_space (y # ys)"

definition fmt_strings :: "string list \<Rightarrow> string" where
  "fmt_strings xs = ''['' @ join_space xs @ '']''"

section \<open>The approval engine\<close>

text \<open>
  \<open>getImageVulnerabilities\<close>: the per-image whitelist stored under the image name
  without its version. The variable starts as the nil map and is assigned only when the
  key exists. \<open>strings.Split\<close> never returns an empty slice (lemma
  \<open>strings_Split_not_Nil\<close>), so index 0 is in range.
\<close>

definition getImageVulnerabilities ::
  "string \<Rightarrow> (string, (string, string) fmap) fmap \<Rightarrow> (string, string) fmap" where
  "getImageVulnerabilities imageName whitelistImageVulnerabilities =
     (let imageWithoutVersion = strings_Split imageName CHR '':'' in
      case fmlookup whitelistImageVulnerabilities (imageWithoutVersion ! 0) of
        Some val \<Rightarrow> val
      | None \<Rightarrow> fmempty)"

text \<open>
  The body of the loop of \<open>vulnerabilitiesApproved\<close> for one finding: whether it is
  still \<open>vulnerable\<close> after the two whitelist checks.
\<close>

definition vulnerable_after_checks ::
  "vulnerabilitiesWhitelist \<Rightarrow> (string, string) fmap \<Rightarrow> string \<Rightarrow> bool" where
  "vulnerable_after_checks whitelist imageVulnerabilities name =
     (let vulnerable = True;
          vulnerable = (if exists_key (GeneralWhitelist whitelist) name then False else vulnerable);
          vulnerable = (if vulnerable \<and> len_map imageVulnerabilities > 0
                        then (if exists_key imageVulnerabilities name then False else vulnerable)
                        else vulnerable)
      in vulnerable)"

text \<open>
  The loop \<open>for i := 0; i < len(vulnerabilities); i++\<close>, with the slice
  \<open>unapproved\<close> as accumulator; \<open>append\<close> adds at the end.
\<close>

fun unapproved_loop ::
  "vulnerabilitiesWhitelist \<Rightarrow> (string, string) fmap \<Rightarrow> vulnerabilityInfo list \<Rightarrow>
   string list \<Rightarrow> string list" where
  "unapproved_loop whitelist imageVulnerabilities [] unapproved = unapproved"
| "unapproved_loop whitelist imageVulnerabilities (v # vs) unapproved =
     unapproved_loop whitelist imageVulnerabilities vs
       (if vulnerable_after_checks whitelist imageVulnerabilities (vulnerability v)
        then unapproved @ [vulnerability v] else unapproved)"

text \<open>The slice \<open>unapproved\<close> as it stands when the loop is left.\<close>

definition unapproved_of ::
  "string \<Rightarrow> vulnerabilityInfo list \<Rightarrow> vulnerabilitiesWhitelist \<Rightarrow> string list" where
  "unapproved_of imageName vulnerabilities whitelist =
     unapproved_loop whitelist (getImageVulnerabilities imageName (Images whitelist))
       vulnerabilities []"

text \<open>
  \<open>vulnerabilitiesApproved\<close>: \<open>None\<close> is the nil error (approved), \<open>Some e\<close> the
  error made by \<open>fmt.Errorf("%s", unapproved)\<close> (rejected).
\<close>

definition vulnerabilitiesApproved ::
  "string \<Rightarrow> vulnerabilityInfo list \<Rightarrow> vulnerabilitiesWhitelist \<Rightarrow> go_error option" where
  "vulnerabilitiesApproved imageName vulnerabilities whitelist =
     (let unapproved = unapproved_of imageName vulnerabilities whitelist in
      if length unapproved > 0 then Some (GoError (fmt_strings unapproved)) else None)"

text \<open>
  The spec's wording of the whitelist rule, to compare with the code: the image key is
  the image name truncated before its first colon, and a name is covered when it is a
  key of the general mapping or of the per-image mapping stored under the image key.
\<close>

definition imageKey :: "string \<Rightarrow> string" where
  "imageKey imageName = takeWhile (\<lambda>c. c \<noteq> CHR '':'') imageName"

definition covered :: "string \<Rightarrow> vulnerabilitiesWhitelist \<Rightarrow> string \<Rightarrow> bool" where
  "covered imageName whitelist name =
     (name |\<in>| fmdom (GeneralWhitelist whitelist) \<or>
      (case fmlookup (Images whitelist) (imageKey imageName) of
         None \<Rightarrow> False
       | Some m \<Rightarrow> name |\<in>| fmdom m))"

section \<open>The analyzer client\<close>

text \<open>
  The types of the analyzer's API (package \<open>v1\<close> of Clair) and of \<open>net/http\<close>, with
  the fields main.go reads. Pointer fields are options: \<open>None\<close> is the nil pointer.
\<close>

record http_Response =
  StatusCode :: int
  Body :: string

record v1_Vulnerability =
  Name :: string
  NamespaceName :: string
  Severity :: string

record v1_Feature =
  Vulnerabilities :: "v1_Vulnerability list"

record v1_Layer =
  Features :: "v1_Feature list"

record v1_Error =
  Message :: string

record v1_LayerEnvelope =
  Layer :: "v1_Layer option"
  Error :: "v1_Error option"

text \<open>
  How a call ends: it returns a value with a nil error, it returns a non-nil error, or
  it panics at run time.
\<close>

datatype panic = NilPointerDereference | IndexOutOfRange

datatype 'a outcome = Ok 'a | Failed go_error | Panic panic

text \<open>What main.go does to the world, in the order it does it.\<close>

datatype event =
    HttpGet string
  | Printf string
  | LogFatalf string
  | ServerShutdown
  | OsRemoveAll string

text \<open>
  The world outside the program: what \<open>http.Get\<close> answers for a URL, what the JSON
  decoder makes of a response body, and the colouring of package \<open>color\<close>.
\<close>

record env =
  http_Get :: "string \<Rightarrow> go_error + http_Response"
  json_Decode :: "string \<Rightarrow> go_error + v1_LayerEnvelope"
  color_YellowString :: "string \<Rightarrow> string"

definition tmpPrefix :: string where
  "tmpPrefix = ''clair-scanner-''"

definition httpPort :: int where
  "httpPort = 9279"

text \<open>\<open>fmt.Sprintf(getLayerFeaturesURI, layerID)\<close>.\<close>

definition getLayerFeaturesURI :: "string \<Rightarrow> string" where
  "getLayerFeaturesURI layerID = ''/v1/layers/'' @ layerID @ ''?vulnerabilities''"

text \<open>The verb \<open>%d\<close> and \<open>strconv.Itoa\<close>: an integer in decimal.\<close>

definition digit_char :: "nat \<Rightarrow> char" where
  "digit_char d = ''0123456789'' ! d"

function nat_digits :: "nat \<Rightarrow> string" where
  "nat_digits n =
     (if n < 10 then [digit_char n] else nat_digits (n div 10) @ [digit_char (n mod 10)])"
  by pat_completeness auto
termination
  by (relation "measure (\<lambda>n. n)") auto

declare nat_digits.simps [simp del]

definition fmt_d :: "int \<Rightarrow> string" where
  "fmt_d i = (if i < 0 then ''-'' @ nat_digits (nat (- i)) else nat_digits (nat i))"

text \<open>
  \<open>fetchLayerVulnerabilities\<close>. The last line dereferences \<open>apiResponse.Layer\<close>
  whatever it holds. The deferred \<open>Body.Close\<close> is left out of the trace.
\<close>

definition fetchLayerVulnerabilities ::
  "env \<Rightarrow> string \<Rightarrow> string \<Rightarrow> v1_Layer outcome \<times> event list" where
  "fetchLayerVulnerabilities e clairURL layerID =
     (let url = clairURL @ getLayerFeaturesURI layerID in
      ((case http_Get e url of
          Inl err \<Rightarrow> Failed err
        | Inr response \<Rightarrow>
            if StatusCode response \<noteq> 200
            then Failed (GoError (''Got response '' @ fmt_d (StatusCode response) @
                                  '' with message '' @ Body response))
            else (case json_Decode e (Body response) of
                    Inl err \<Rightarrow> Failed err
                  | Inr apiResponse \<Rightarrow>
                      (case Error apiResponse of
                         Some apiError \<Rightarrow> Failed (GoError (Message apiError))
                       | None \<Rightarrow>
                           (case Layer apiResponse of
                              None \<Rightarrow> Panic NilPointerDereference
                            | Some layer \<Rightarrow> Ok layer)))),
       [HttpGet url]))"

text \<open>The two nested \<open>range\<close> loops of \<open>getVulnerabilities\<close>, appending to the slice.\<close>

fun append_vulnerabilities ::
  "v1_Vulnerability list \<Rightarrow> vulnerabilityInfo list \<Rightarrow> vulnerabilityInfo list" where
  "append_vulnerabilities [] vulnerabilities = vulnerabilities"
| "append_vulnerabilities (v # vs) vulnerabilities =
     append_vulnerabilities vs
       (vulnerabilities @
        [\<lparr>vulnerability = Name v, namespace = NamespaceName v, severity = Severity v\<rparr>])"

fun append_features ::
  "v1_Feature list \<Rightarrow> vulnerabilityInfo list \<Rightarrow> vulnerabilityInfo list" where
  "append_features [] vulnerabilities = vulnerabilities"
| "append_features (feature # features) vulnerabilities =
     append_features features
       (if length (Vulnerabilities feature) > 0
        then append_vulnerabilities (Vulnerabilities feature) vulnerabilities
        else vulnerabilities)"

definition no_features_note :: "env \<Rightarrow> string" where
  "no_features_note e =
     color_YellowString e ''NOTE:'' @
     '' No features have been detected in the image. This usually means that the image isn't supported by Clair.'' @
     [CHR 0x0A]"

text \<open>
  \<open>getVulnerabilities\<close>. With an empty \<open>layerIds\<close> the index \<open>len(layerIds)-1\<close>
  is -1 and the indexing panics before any request is made.
\<close>

definition getVulnerabilities ::
  "env \<Rightarrow> string \<Rightarrow> string list \<Rightarrow> vulnerabilityInfo list outcome \<times> event list" where
  "getVulnerabilities e clairURL layerIds =
     (let vulnerabilities = [] in
      if length layerIds = 0 then (Panic IndexOutOfRange, [])
      else
        (case fetchLayerVulnerabilities e clairURL (layerIds ! (length layerIds - 1)) of
           (Failed err, t) \<Rightarrow> (Failed err, t)
         | (Panic p, t) \<Rightarrow> (Panic p, t)
         | (Ok rawVulnerabilities, t) \<Rightarrow>
             if length (Features rawVulnerabilities) = 0
             then (Ok vulnerabilities, t @ [Printf (no_features_note e)])
             else (Ok (append_features (Features rawVulnerabilities) vulnerabilities), t)))"

text \<open>The URLs requested from the analyzer in a trace.\<close>

fun queries :: "event list \<Rightarrow> string list" where
  "queries [] = []"
| "queries (HttpGet url # t) = url # queries t"
| "queries (ev # t) = queries t"

text \<open>The directories removed in a trace.\<close>

fun removals :: "event list \<Rightarrow> string list" where
  "removals [] = []"
| "removals (OsRemoveAll path # t) = path # removals t"
| "removals (ev # t) = removals t"

section \<open>The orchestrator\<close>

text \<open>
  \<open>start\<close> calls five functions of the repository that are defined outside main.go.
  None of them returns an error, so each call either returns, ends the process itself
  (\<open>log.Fatal\<close>) or panics; what each does is a parameter.
\<close>

datatype 'a call = Returns 'a | Exits | Panics panic

record helpers =
  createTmpPath :: "string \<Rightarrow> string call"
  saveDockerImage :: "string \<Rightarrow> string \<Rightarrow> unit call"
  getImageLayerIds :: "string \<Rightarrow> string list call"
  httpFileServer :: "string \<Rightarrow> string \<Rightarrow> unit call"
  analyzeLayers :: "string list \<Rightarrow> string \<Rightarrow> string \<Rightarrow> unit call"

text \<open>
  How the process ends. When \<open>start\<close> returns or panics, its deferred calls run, the
  last deferred first. \<open>log.Fatalf\<close> prints and calls \<open>os.Exit(1)\<close>, which ends the
  process at once: deferred calls do not run.
\<close>

datatype exit_mode = Returned | Exited int | Crashed panic

text \<open>
  \<open>start\<close>, for the runs in which no signal arrives (the goroutine of
  \<open>listenForSignal\<close> stays blocked). \<open>deferred\<close> is the stack of deferred calls.
\<close>

definition start ::
  "env \<Rightarrow> helpers \<Rightarrow> string \<Rightarrow> vulnerabilitiesWhitelist \<Rightarrow> string \<Rightarrow> string \<Rightarrow>
   exit_mode \<times> event list" where
  "start e h imageName whitelist clairURL scannerIP =
     (case createTmpPath h tmpPrefix of
        Exits \<Rightarrow> (Exited 1, [])
      | Panics p \<Rightarrow> (Crashed p, [])
      | Returns tmpPath \<Rightarrow>
     (let deferred = [OsRemoveAll tmpPath] in
      case saveDockerImage h imageName tmpPath of
        Exits \<Rightarrow> (Exited 1, [])
      | Panics p \<Rightarrow> (Crashed p, deferred)
      | Returns u \<Rightarrow>
     (case getImageLayerIds h tmpPath of
        Exits \<Rightarrow> (Exited 1, [])
      | Panics p \<Rightarrow> (Crashed p, deferred)
      | Returns layerIds \<Rightarrow>
     (case httpFileServer h tmpPath (fmt_d httpPort) of
        Exits \<Rightarrow> (Exited 1, [])
      | Panics p \<Rightarrow> (Crashed p, deferred)
      | Returns server \<Rightarrow>
     (let deferred = ServerShutdown # deferred in
      case analyzeLayers h layerIds clairURL scannerIP of
        Exits \<Rightarrow> (Exited 1, [])
      | Panics p \<Rightarrow> (Crashed p, deferred)
      | Returns u \<Rightarrow>
     (case getVulnerabilities e clairURL layerIds of
        (Panic p, t) \<Rightarrow> (Crashed p, t @ deferred)
      | (Failed err, t) \<Rightarrow>
          (Exited 1, t @ [LogFatalf (''Analyzing failed: '' @ message err)])
      | (Ok vulnerabilities, t) \<Rightarrow>
          (case vulnerabilitiesApproved imageName vulnerabilities whitelist of
             Some err \<Rightarrow>
               (Exited 1,
                t @ [LogFatalf (''Image contains unapproved vulnerabilities: '' @ message err)])
           | None \<Rightarrow> (Returned, t @ deferred))))))))"

section \<open>Facts about the approval engine\<close>

lemma split_from_first: "split_from cur sep s ! 0 = cur @ takeWhile (\<lambda>c. c \<noteq> sep) s"
  by (induction s arbitrary: cur) auto

lemma strings_Split_not_Nil: "strings_Split s sep \<noteq> []"
proof -
  have "split_from cur sep s \<noteq> []" for cur
    by (induction s arbitrary: cur) auto
  then show ?thesis by (simp add: strings_Split_def)
qed

text \<open>The key the code looks up is the image key of the spec.\<close>

lemma strings_Split_first: "strings_Split imageName CHR '':'' ! 0 = imageKey imageName"
  by (simp add: strings_Split_def imageKey_def split_from_first)

lemma exists_key_iff: "exists_key m k = (k |\<in>| fmdom m)"
  by (auto simp: exists_key_def fmlookup_dom_iff split: option.splits)

lemma len_map_pos: "k |\<in>| fmdom m \<Longrightarrow> 0 < len_map m"
proof -
  assume "k |\<in>| fmdom m"
  then have "fmdom m \<noteq> {||}" by auto
  then have "fcard (fmdom m) \<noteq> 0" by simp
  then show ?thesis unfolding len_map_def by (rule neq0_conv[THEN iffD1])
qed

text \<open>
  The guard \<open>len(imageVulnerabilities) > 0\<close> changes nothing: a map that holds the
  name is not empty.
\<close>

lemma vulnerable_after_checks_iff:
  "vulnerable_after_checks whitelist m name =
     (name |\<notin>| fmdom (GeneralWhitelist whitelist) \<and> name |\<notin>| fmdom m)"
  using len_map_pos [of name m]
  by (auto simp: vulnerable_after_checks_def exists_key_iff)

lemma getImageVulnerabilities_dom:
  "name |\<in>| fmdom (getImageVulnerabilities imageName images) =
     (case fmlookup images (imageKey imageName) of None \<Rightarrow> False | Some m \<Rightarrow> name |\<in>| fmdom m)"
  by (simp add: getImageVulnerabilities_def strings_Split_first split: option.splits)

lemma vulnerable_iff_not_covered:
  "vulnerable_after_checks whitelist (getImageVulnerabilities imageName (Images whitelist)) name
     = (\<not> covered imageName whitelist name)"
  by (simp add: vulnerable_after_checks_iff getImageVulnerabilities_dom covered_def)

lemma unapproved_loop_filter:
  "unapproved_loop whitelist m vs acc =
     acc @ map vulnerability
             (filter (\<lambda>v. vulnerable_after_checks whitelist m (vulnerability v)) vs)"
  by (induction vs arbitrary: acc) simp_all

lemma unapproved_of_filter:
  "unapproved_of imageName vs whitelist =
     map vulnerability (filter (\<lambda>v. \<not> covered imageName whitelist (vulnerability v)) vs)"
  by (simp add: unapproved_of_def unapproved_loop_filter vulnerable_iff_not_covered)

lemma vulnerabilitiesApproved_unapproved:
  "vulnerabilitiesApproved imageName vs whitelist =
     (if unapproved_of imageName vs whitelist = [] then None
      else Some (GoError (fmt_strings (unapproved_of imageName vs whitelist))))"
  by (simp add: vulnerabilitiesApproved_def Let_def)

text \<open>
  The names in the error's text stand in the order of the findings: the same two
  findings in the other order give an error with the other text.
\<close>

lemma rejected_names_follow_findings_order:
  "vulnerabilitiesApproved ''myapp:1.0''
     [\<lparr>vulnerability = ''CVE-2020-1'', namespace = ''os'', severity = ''High''\<rparr>,
      \<lparr>vulnerability = ''CVE-2020-2'', namespace = ''os'', severity = ''Low''\<rparr>]
     \<lparr>GeneralWhitelist = fmempty, Images = fmempty\<rparr>
     = Some (GoError ''[CVE-2020-1 CVE-2020-2]'')
   \<and> vulnerabilitiesApproved ''myapp:1.0''
     [\<lparr>vulnerability = ''CVE-2020-2'', namespace = ''os'', severity = ''Low''\<rparr>,
      \<lparr>vulnerability = ''CVE-2020-1'', namespace = ''os'', severity = ''High''\<rparr>]
     \<lparr>GeneralWhitelist = fmempty, Images = fmempty\<rparr>
     = Some (GoError ''[CVE-2020-2 CVE-2020-1]'')"
  by (simp add: vulnerabilitiesApproved_unapproved unapproved_of_filter covered_def
      imageKey_def fmt_strings_def)

section \<open>The claims about the approval engine\<close>

text \<open>
  C1. \<open>vulnerabilitiesApproved\<close> returns an error (rejected) exactly when some finding's
  name is covered neither by the general whitelist nor by the per-image whitelist stored
  under the image key. The slice \<open>unapproved\<close> then holds the name of every finding
  that is not covered, once per occurrence and in the order of the findings, and the
  error's text is that slice printed with \<open>%s\<close>. For the empty list of findings the
  result is nil (approved).
\<close>

theorem decide_rejects_iff_uncovered:
  "(vulnerabilitiesApproved imageName findings whitelist \<noteq> None) =
     (\<exists>f \<in> set findings. \<not> covered imageName whitelist (vulnerability f))
   \<and> unapproved_of imageName findings whitelist =
       map vulnerability (filter (\<lambda>f. \<not> covered imageName whitelist (vulnerability f)) findings)
   \<and> vulnerabilitiesApproved imageName findings whitelist =
       (if unapproved_of imageName findings whitelist = [] then None
        else Some (GoError (fmt_strings (unapproved_of imageName findings whitelist))))
   \<and> vulnerabilitiesApproved imageName [] whitelist = None"
  by (auto simp: vulnerabilitiesApproved_unapproved unapproved_of_filter filter_empty_conv)

text \<open>
  The scenario of the spec, with the second finding reported twice: image
  \<open>myapp:1.0\<close>, and \<open>CVE-2020-1\<close> whitelisted for \<open>myapp\<close> only.
\<close>

theorem decide_rejects_iff_uncovered_witness:
  "vulnerabilitiesApproved ''myapp:1.0''
     [\<lparr>vulnerability = ''CVE-2020-1'', namespace = ''os'', severity = ''High''\<rparr>,
      \<lparr>vulnerability = ''CVE-2020-2'', namespace = ''os'', severity = ''Low''\<rparr>,
      \<lparr>vulnerability = ''CVE-2020-2'', namespace = ''lib'', severity = ''Low''\<rparr>]
     \<lparr>GeneralWhitelist = fmempty,
      Images = fmupd ''myapp'' (fmupd ''CVE-2020-1'' ''ok'' fmempty) fmempty\<rparr>
   = Some (GoError ''[CVE-2020-2 CVE-2020-2]'')"
  using decide_rejects_iff_uncovered [of "''myapp:1.0''"
     "[\<lparr>vulnerability = ''CVE-2020-1'', namespace = ''os'', severity = ''High''\<rparr>,
      \<lparr>vulnerability = ''CVE-2020-2'', namespace = ''os'', severity = ''Low''\<rparr>,
      \<lparr>vulnerability = ''CVE-2020-2'', namespace = ''lib'', severity = ''Low''\<rparr>]"
     "\<lparr>GeneralWhitelist = fmempty,
      Images = fmupd ''myapp'' (fmupd ''CVE-2020-1'' ''ok'' fmempty) fmempty\<rparr>"]
  by (simp add: covered_def imageKey_def fmt_strings_def)

text \<open>
  C2. A finding whose name is a key of the general whitelist never has its name in the
  slice \<open>unapproved\<close>, whatever its severity and namespace, whatever the image name,
  the other findings and the per-image whitelists.
\<close>

theorem general_whitelist_never_rejected:
  "vulnerability f |\<in>| fmdom (GeneralWhitelist whitelist) \<Longrightarrow>
   vulnerability f \<notin> set (unapproved_of imageName findings whitelist)"
  by (auto simp: unapproved_of_filter covered_def)

theorem general_whitelist_never_rejected_witness:
  "''CVE-2020-1'' |\<in>| fmdom (fmupd ''CVE-2020-1'' ''x'' fmempty)
   \<and> ''CVE-2020-1'' \<notin> set (unapproved_of ''other:2.3''
        [\<lparr>vulnerability = ''CVE-2020-1'', namespace = ''os'', severity = ''High''\<rparr>,
         \<lparr>vulnerability = ''CVE-2020-2'', namespace = ''os'', severity = ''Low''\<rparr>]
        \<lparr>GeneralWhitelist = fmupd ''CVE-2020-1'' ''x'' fmempty, Images = fmempty\<rparr>)"
  using general_whitelist_never_rejected
    [of "\<lparr>vulnerability = ''CVE-2020-1'', namespace = ''os'', severity = ''High''\<rparr>"
        "\<lparr>GeneralWhitelist = fmupd ''CVE-2020-1'' ''x'' fmempty, Images = fmempty\<rparr>"
        "''other:2.3''"
        "[\<lparr>vulnerability = ''CVE-2020-1'', namespace = ''os'', severity = ''High''\<rparr>,
          \<lparr>vulnerability = ''CVE-2020-2'', namespace = ''os'', severity = ''Low''\<rparr>]"]
  by simp

text \<open>
  C3. A finding whose name is a key of the per-image whitelist stored under the image
  key (the image name up to its first colon, the whole name when it has none) never has
  its name in the slice \<open>unapproved\<close>. By \<open>strings_Split_first\<close> the image key is
  the key \<open>getImageVulnerabilities\<close> looks up.
\<close>

theorem image_whitelist_never_rejected:
  "fmlookup (Images whitelist) (imageKey imageName) = Some m \<Longrightarrow>
   vulnerability f |\<in>| fmdom m \<Longrightarrow>
   vulnerability f \<notin> set (unapproved_of imageName findings whitelist)"
  by (auto simp: unapproved_of_filter covered_def)

theorem image_whitelist_never_rejected_witness:
  "imageKey ''myapp:1.0:rc'' = ''myapp''
   \<and> ''CVE-2020-1'' \<notin> set (unapproved_of ''myapp:1.0:rc''
        [\<lparr>vulnerability = ''CVE-2020-1'', namespace = ''os'', severity = ''High''\<rparr>,
         \<lparr>vulnerability = ''CVE-2020-2'', namespace = ''os'', severity = ''Low''\<rparr>]
        \<lparr>GeneralWhitelist = fmempty,
         Images = fmupd ''myapp'' (fmupd ''CVE-2020-1'' ''ok'' fmempty) fmempty\<rparr>)"
  using image_whitelist_never_rejected
    [of "\<lparr>GeneralWhitelist = fmempty,
         Images = fmupd ''myapp'' (fmupd ''CVE-2020-1'' ''ok'' fmempty) fmempty\<rparr>"
        "''myapp:1.0:rc''"
        "fmupd ''CVE-2020-1'' ''ok'' fmempty"
        "\<lparr>vulnerability = ''CVE-2020-1'', namespace = ''os'', severity = ''High''\<rparr>"
        "[\<lparr>vulnerability = ''CVE-2020-1'', namespace = ''os'', severity = ''High''\<rparr>,
          \<lparr>vulnerability = ''CVE-2020-2'', namespace = ''os'', severity = ''Low''\<rparr>]"]
  by (simp add: imageKey_def)

text \<open>
  C8. Two whitelists with the same general mapping and the same per-image entry under
  the image key give the same result, whatever they store under other keys.
\<close>

theorem other_image_entries_have_no_effect:
  "GeneralWhitelist w1 = GeneralWhitelist w2 \<Longrightarrow>
   fmlookup (Images w1) (imageKey imageName) = fmlookup (Images w2) (imageKey imageName) \<Longrightarrow>
   vulnerabilitiesApproved imageName findings w1 = vulnerabilitiesApproved imageName findings w2"
  by (simp add: vulnerabilitiesApproved_unapproved unapproved_of_filter covered_def)

text \<open>The second whitelist approves the finding for the image \<open>other\<close> only.\<close>

theorem other_image_entries_have_no_effect_witness:
  "vulnerabilitiesApproved ''myapp:1.0''
     [\<lparr>vulnerability = ''CVE-2020-1'', namespace = ''os'', severity = ''High''\<rparr>]
     \<lparr>GeneralWhitelist = fmempty, Images = fmempty\<rparr>
   = vulnerabilitiesApproved ''myapp:1.0''
     [\<lparr>vulnerability = ''CVE-2020-1'', namespace = ''os'', severity = ''High''\<rparr>]
     \<lparr>GeneralWhitelist = fmempty,
      Images = fmupd ''other'' (fmupd ''CVE-2020-1'' ''ok'' fmempty) fmempty\<rparr>
   \<and> fmlookup (fmupd ''other'' (fmupd ''CVE-2020-1'' ''ok'' fmempty) fmempty) ''other''
       \<noteq> fmlookup (fmempty :: (string, (string, string) fmap) fmap) ''other''"
  using other_image_entries_have_no_effect
    [of "\<lparr>GeneralWhitelist = fmempty, Images = fmempty\<rparr>"
        "\<lparr>GeneralWhitelist = fmempty,
          Images = fmupd ''other'' (fmupd ''CVE-2020-1'' ''ok'' fmempty) fmempty\<rparr>"
        "''myapp:1.0''"
        "[\<lparr>vulnerability = ''CVE-2020-1'', namespace = ''os'', severity = ''High''\<rparr>]"]
  by (simp add: imageKey_def)

text \<open>
  C9. Each finding is judged on its own: the slice \<open>unapproved\<close> for a list of
  findings is the concatenation of the slices for each finding alone. So for a
  permutation of the findings the decision (nil or an error) is the same and the same
  names are unapproved, each as many times as before. The names stand in the slice, and
  in the error's text, in the order of the findings.
\<close>

theorem decide_order_insensitive:
  "mset findings = mset findings' \<Longrightarrow>
     (vulnerabilitiesApproved imageName findings whitelist = None) =
       (vulnerabilitiesApproved imageName findings' whitelist = None)
   \<and> mset (unapproved_of imageName findings whitelist) =
       mset (unapproved_of imageName findings' whitelist)
   \<and> unapproved_of imageName findings whitelist =
       concat (map (\<lambda>f. unapproved_of imageName [f] whitelist) findings)"
proof -
  assume p: "mset findings = mset findings'"
  let ?P = "\<lambda>f. \<not> covered imageName whitelist (vulnerability f)"
  have "mset (filter ?P findings) = mset (filter ?P findings')"
    using p by (simp only: mset_filter)
  then have m: "mset (unapproved_of imageName findings whitelist) =
      mset (unapproved_of imageName findings' whitelist)"
    by (simp only: unapproved_of_filter mset_map)
  then have "(unapproved_of imageName findings whitelist = []) =
      (unapproved_of imageName findings' whitelist = [])"
    by (metis mset_zero_iff)
  then have d: "(vulnerabilitiesApproved imageName findings whitelist = None) =
       (vulnerabilitiesApproved imageName findings' whitelist = None)"
    by (simp add: vulnerabilitiesApproved_unapproved)
  have c: "unapproved_of imageName findings whitelist =
       concat (map (\<lambda>f. unapproved_of imageName [f] whitelist) findings)"
    by (induction findings) (simp_all add: unapproved_of_filter)
  from d m c show ?thesis by blast
qed

theorem decide_order_insensitive_witness:
  "(vulnerabilitiesApproved ''myapp:1.0''
      [\<lparr>vulnerability = ''CVE-2020-1'', namespace = ''os'', severity = ''High''\<rparr>,
       \<lparr>vulnerability = ''CVE-2020-2'', namespace = ''os'', severity = ''Low''\<rparr>,
       \<lparr>vulnerability = ''CVE-2020-3'', namespace = ''os'', severity = ''Low''\<rparr>]
      \<lparr>GeneralWhitelist = fmupd ''CVE-2020-2'' ''y'' fmempty, Images = fmempty\<rparr> = None)
   = (vulnerabilitiesApproved ''myapp:1.0''
      [\<lparr>vulnerability = ''CVE-2020-3'', namespace = ''os'', severity = ''Low''\<rparr>,
       \<lparr>vulnerability = ''CVE-2020-2'', namespace = ''os'', severity = ''Low''\<rparr>,
       \<lparr>vulnerability = ''CVE-2020-1'', namespace = ''os'', severity = ''High''\<rparr>]
      \<lparr>GeneralWhitelist = fmupd ''CVE-2020-2'' ''y'' fmempty, Images = fmempty\<rparr> = None)"
  using decide_order_insensitive
    [of "[\<lparr>vulnerability = ''CVE-2020-1'', namespace = ''os'', severity = ''High''\<rparr>,
          \<lparr>vulnerability = ''CVE-2020-2'', namespace = ''os'', severity = ''Low''\<rparr>,
          \<lparr>vulnerability = ''CVE-2020-3'', namespace = ''os'', severity = ''Low''\<rparr>]"
        "[\<lparr>vulnerability = ''CVE-2020-3'', namespace = ''os'', severity = ''Low''\<rparr>,
          \<lparr>vulnerability = ''CVE-2020-2'', namespace = ''os'', severity = ''Low''\<rparr>,
          \<lparr>vulnerability = ''CVE-2020-1'', namespace = ''os'', severity = ''High''\<rparr>]"
        "''myapp:1.0''"
        "\<lparr>GeneralWhitelist = fmupd ''CVE-2020-2'' ''y'' fmempty, Images = fmempty\<rparr>"]
  by simp

section \<open>Facts about the analyzer client\<close>

lemma fetch_trace:
  "snd (fetchLayerVulnerabilities e clairURL layerID) =
     [HttpGet (clairURL @ getLayerFeaturesURI layerID)]"
  by (simp add: fetchLayerVulnerabilities_def Let_def)

text \<open>With a non-empty \<open>layerIds\<close> the index \<open>len(layerIds)-1\<close> is that of the last element.\<close>

lemma getVulnerabilities_nonempty:
  "layerIds \<noteq> [] \<Longrightarrow>
   getVulnerabilities e clairURL layerIds =
     (case fetchLayerVulnerabilities e clairURL (last layerIds) of
        (Failed err, t) \<Rightarrow> (Failed err, t)
      | (Panic p, t) \<Rightarrow> (Panic p, t)
      | (Ok rawVulnerabilities, t) \<Rightarrow>
          if Features rawVulnerabilities = []
          then (Ok [], t @ [Printf (no_features_note e)])
          else (Ok (append_features (Features rawVulnerabilities) []), t))"
  by (simp add: getVulnerabilities_def last_conv_nth split: prod.splits outcome.splits)

lemma getVulnerabilities_trace:
  "layerIds \<noteq> [] \<Longrightarrow>
   snd (getVulnerabilities e clairURL layerIds) =
     HttpGet (clairURL @ getLayerFeaturesURI (last layerIds)) #
     (case fst (fetchLayerVulnerabilities e clairURL (last layerIds)) of
        Ok raw \<Rightarrow> if Features raw = [] then [Printf (no_features_note e)] else []
      | Failed err \<Rightarrow> []
      | Panic p \<Rightarrow> [])"
  using fetch_trace [of e clairURL "last layerIds"]
  by (cases "fetchLayerVulnerabilities e clairURL (last layerIds)")
     (auto simp: getVulnerabilities_nonempty split: outcome.splits)

lemma removals_append: "removals (t @ t') = removals t @ removals t'"
  by (induction t rule: removals.induct) simp_all

lemma getVulnerabilities_removals:
  "removals (snd (getVulnerabilities e clairURL layerIds)) = []"
proof (cases "layerIds = []")
  case True
  then show ?thesis by (simp add: getVulnerabilities_def)
next
  case False
  then show ?thesis by (simp add: getVulnerabilities_trace split: outcome.splits)
qed

lemma getVulnerabilities_result_removals:
  "getVulnerabilities e clairURL layerIds = (r, t) \<Longrightarrow> removals t = []"
  using getVulnerabilities_removals [of e clairURL layerIds] by simp

section \<open>The claims about the analyzer client\<close>

text \<open>
  C5. For a non-empty sequence of layer IDs, \<open>getVulnerabilities\<close> sends exactly one
  request to the analyzer: the vulnerability report of the last layer ID.
\<close>

theorem getVulnerabilities_queries_last_layer:
  "layerIds \<noteq> [] \<Longrightarrow>
   queries (snd (getVulnerabilities e clairURL layerIds)) =
     [clairURL @ ''/v1/layers/'' @ last layerIds @ ''?vulnerabilities'']"
  by (simp add: getVulnerabilities_trace getLayerFeaturesURI_def split: outcome.splits)

theorem getVulnerabilities_queries_last_layer_witness:
  "queries (snd (getVulnerabilities
      \<lparr>http_Get = (\<lambda>u. Inr \<lparr>StatusCode = 500, Body = ''boom''\<rparr>),
       json_Decode = (\<lambda>b. Inr \<lparr>Layer = None, Error = None\<rparr>),
       color_YellowString = (\<lambda>s. s)\<rparr>
      ''http://clair:6060'' [''L1'', ''L2'', ''L3'']))
   = [''http://clair:6060/v1/layers/L3?vulnerabilities'']"
  using getVulnerabilities_queries_last_layer
    [of "[''L1'', ''L2'', ''L3'']"
        "\<lparr>http_Get = (\<lambda>u. Inr \<lparr>StatusCode = 500, Body = ''boom''\<rparr>),
         json_Decode = (\<lambda>b. Inr \<lparr>Layer = None, Error = None\<rparr>),
         color_YellowString = (\<lambda>s. s)\<rparr>"
        "''http://clair:6060''"]
  by simp

text \<open>
  C6. When the analyzer answers the request for the last layer with a layer that has no
  features, \<open>getVulnerabilities\<close> returns the empty list with a nil error and prints
  the note; \<open>vulnerabilitiesApproved\<close> on the empty list returns nil; and \<open>start\<close>,
  when its helpers return, returns normally after running its deferred calls.
\<close>

theorem zero_features_is_not_an_error:
  assumes "layerIds \<noteq> []"
    and "http_Get e (clairURL @ getLayerFeaturesURI (last layerIds)) = Inr response"
    and "StatusCode response = 200"
    and "json_Decode e (Body response) = Inr apiResponse"
    and "Error apiResponse = None"
    and "Layer apiResponse = Some layer"
    and "Features layer = []"
  shows "getVulnerabilities e clairURL layerIds =
           (Ok [], [HttpGet (clairURL @ getLayerFeaturesURI (last layerIds)),
                    Printf (no_features_note e)])
         \<and> vulnerabilitiesApproved imageName [] whitelist = None
         \<and> (createTmpPath h tmpPrefix = Returns tmpPath \<and>
            saveDockerImage h imageName tmpPath = Returns () \<and>
            getImageLayerIds h tmpPath = Returns layerIds \<and>
            httpFileServer h tmpPath (fmt_d httpPort) = Returns () \<and>
            analyzeLayers h layerIds clairURL scannerIP = Returns () \<longrightarrow>
            start e h imageName whitelist clairURL scannerIP =
              (Returned, [HttpGet (clairURL @ getLayerFeaturesURI (last layerIds)),
                          Printf (no_features_note e), ServerShutdown, OsRemoveAll tmpPath]))"
proof -
  have f: "fetchLayerVulnerabilities e clairURL (last layerIds) =
      (Ok layer, [HttpGet (clairURL @ getLayerFeaturesURI (last layerIds))])"
    using assms by (simp add: fetchLayerVulnerabilities_def Let_def)
  have g: "getVulnerabilities e clairURL layerIds =
           (Ok [], [HttpGet (clairURL @ getLayerFeaturesURI (last layerIds)),
                    Printf (no_features_note e)])"
    using assms(1,7) by (simp add: getVulnerabilities_nonempty f)
  have a: "vulnerabilitiesApproved imageName [] whitelist = None"
    by (simp add: vulnerabilitiesApproved_unapproved unapproved_of_filter)
  show ?thesis using g a by (simp add: start_def Let_def)
qed

theorem zero_features_is_not_an_error_witness:
  "getVulnerabilities
      \<lparr>http_Get = (\<lambda>u. Inr \<lparr>StatusCode = 200, Body = ''{}''\<rparr>),
       json_Decode = (\<lambda>b. Inr \<lparr>Layer = Some \<lparr>Features = []\<rparr>, Error = None\<rparr>),
       color_YellowString = (\<lambda>s. s)\<rparr>
      ''http://clair:6060'' [''L1'', ''L2'']
    = (Ok [], [HttpGet ''http://clair:6060/v1/layers/L2?vulnerabilities'',
               Printf (no_features_note
                 \<lparr>http_Get = (\<lambda>u. Inr \<lparr>StatusCode = 200, Body = ''{}''\<rparr>),
                  json_Decode = (\<lambda>b. Inr \<lparr>Layer = Some \<lparr>Features = []\<rparr>, Error = None\<rparr>),
                  color_YellowString = (\<lambda>s. s)\<rparr>)])
   \<and> fst (start
      \<lparr>http_Get = (\<lambda>u. Inr \<lparr>StatusCode = 200, Body = ''{}''\<rparr>),
       json_Decode = (\<lambda>b. Inr \<lparr>Layer = Some \<lparr>Features = []\<rparr>, Error = None\<rparr>),
       color_YellowString = (\<lambda>s. s)\<rparr>
      \<lparr>createTmpPath = (\<lambda>prefix. Returns (''/tmp/'' @ prefix @ ''1'')),
       saveDockerImage = (\<lambda>image path. Returns ()),
       getImageLayerIds = (\<lambda>path. Returns [''L1'', ''L2'']),
       httpFileServer = (\<lambda>path port. Returns ()),
       analyzeLayers = (\<lambda>ids url ip. Returns ())\<rparr>
      ''myapp:1.0'' \<lparr>GeneralWhitelist = fmempty, Images = fmempty\<rparr>
      ''http://clair:6060'' ''localhost'') = Returned"
  using zero_features_is_not_an_error
    [where layerIds = "[''L1'', ''L2'']"
       and e = "\<lparr>http_Get = (\<lambda>u. Inr \<lparr>StatusCode = 200, Body = ''{}''\<rparr>),
                 json_Decode = (\<lambda>b. Inr \<lparr>Layer = Some \<lparr>Features = []\<rparr>, Error = None\<rparr>),
                 color_YellowString = (\<lambda>s. s)\<rparr>"
       and clairURL = "''http://clair:6060''"
       and response = "\<lparr>StatusCode = 200, Body = ''{}''\<rparr>"
       and apiResponse = "\<lparr>Layer = Some \<lparr>Features = []\<rparr>, Error = None\<rparr>"
       and layer = "\<lparr>Features = []\<rparr>"
       and imageName = "''myapp:1.0''"
       and whitelist = "\<lparr>GeneralWhitelist = fmempty, Images = fmempty\<rparr>"
       and h = "\<lparr>createTmpPath = (\<lambda>prefix. Returns (''/tmp/'' @ prefix @ ''1'')),
                 saveDockerImage = (\<lambda>image path. Returns ()),
                 getImageLayerIds = (\<lambda>path. Returns [''L1'', ''L2'']),
                 httpFileServer = (\<lambda>path port. Returns ()),
                 analyzeLayers = (\<lambda>ids url ip. Returns ())\<rparr>"
       and tmpPath = "''/tmp/'' @ tmpPrefix @ ''1''"
       and scannerIP = "''localhost''"]
  by (simp add: getLayerFeaturesURI_def)

text \<open>
  C7. When the request is answered with a status other than 200, or with status 200 and
  a body that decodes into an envelope holding an error object,
  \<open>fetchLayerVulnerabilities\<close> returns an error and no layer. With a status other
  than 200 the error's text is \<open>Got response\<close>, the status in decimal,
  \<open>with message\<close> and the body; otherwise it is the message of the envelope's
  error object.
\<close>

theorem fetch_error_cases:
  assumes "http_Get e (clairURL @ getLayerFeaturesURI layerID) = Inr response"
    and "StatusCode response \<noteq> 200 \<or>
         (json_Decode e (Body response) = Inr apiResponse \<and> Error apiResponse = Some apiError)"
  shows "fst (fetchLayerVulnerabilities e clairURL layerID) =
     Failed (GoError
       (if StatusCode response \<noteq> 200
        then ''Got response '' @ fmt_d (StatusCode response) @ '' with message '' @ Body response
        else Message apiError))"
  using assms by (auto simp: fetchLayerVulnerabilities_def Let_def)

theorem fetch_error_cases_witness:
  "fst (fetchLayerVulnerabilities
      \<lparr>http_Get = (\<lambda>u. Inr \<lparr>StatusCode = 404, Body = ''no such layer''\<rparr>),
       json_Decode = (\<lambda>b. Inr \<lparr>Layer = None, Error = Some \<lparr>Message = ''unused''\<rparr>\<rparr>),
       color_YellowString = (\<lambda>s. s)\<rparr>
      ''http://clair:6060'' ''L3'')
     = Failed (GoError ''Got response 404 with message no such layer'')
   \<and> fst (fetchLayerVulnerabilities
      \<lparr>http_Get = (\<lambda>u. Inr \<lparr>StatusCode = 200, Body = ''envelope with error''\<rparr>),
       json_Decode = (\<lambda>b. Inr \<lparr>Layer = None, Error = Some \<lparr>Message = ''layer unknown''\<rparr>\<rparr>),
       color_YellowString = (\<lambda>s. s)\<rparr>
      ''http://clair:6060'' ''L3'')
     = Failed (GoError ''layer unknown'')"
  using
    fetch_error_cases
      [of "\<lparr>http_Get = (\<lambda>u. Inr \<lparr>StatusCode = 404, Body = ''no such layer''\<rparr>),
            json_Decode = (\<lambda>b. Inr \<lparr>Layer = None, Error = Some \<lparr>Message = ''unused''\<rparr>\<rparr>),
            color_YellowString = (\<lambda>s. s)\<rparr>"
          "''http://clair:6060''" "''L3''"
          "\<lparr>StatusCode = 404, Body = ''no such layer''\<rparr>"
          "\<lparr>Layer = None, Error = Some \<lparr>Message = ''unused''\<rparr>\<rparr>"
          "\<lparr>Message = ''unused''\<rparr>"]
    fetch_error_cases
      [of "\<lparr>http_Get = (\<lambda>u. Inr \<lparr>StatusCode = 200, Body = ''envelope with error''\<rparr>),
            json_Decode = (\<lambda>b. Inr \<lparr>Layer = None, Error = Some \<lparr>Message = ''layer unknown''\<rparr>\<rparr>),
            color_YellowString = (\<lambda>s. s)\<rparr>"
          "''http://clair:6060''" "''L3''"
          "\<lparr>StatusCode = 200, Body = ''envelope with error''\<rparr>"
          "\<lparr>Layer = None, Error = Some \<lparr>Message = ''layer unknown''\<rparr>\<rparr>"
          "\<lparr>Message = ''layer unknown''\<rparr>"]
  by (simp add: fmt_d_def nat_digits.simps digit_char_def)

text \<open>
  C10. After a response with status 200 whose body decodes into an envelope without an
  error object, \<open>fetchLayerVulnerabilities\<close> dereferences the envelope's layer field:
  when the field is nil the call panics with a nil pointer dereference, otherwise it
  returns the layer. It returns without an error only after such a response whose
  envelope holds a layer.
\<close>

theorem fetch_dereferences_layer:
  "(http_Get e (clairURL @ getLayerFeaturesURI layerID) = Inr response \<and>
    StatusCode response = 200 \<and>
    json_Decode e (Body response) = Inr apiResponse \<and>
    Error apiResponse = None \<longrightarrow>
      fst (fetchLayerVulnerabilities e clairURL layerID) =
        (case Layer apiResponse of
           None \<Rightarrow> Panic NilPointerDereference
         | Some layer \<Rightarrow> Ok layer))
   \<and> (fst (fetchLayerVulnerabilities e clairURL layerID) = Ok layer' \<longrightarrow>
        (\<exists>response' apiResponse'.
           http_Get e (clairURL @ getLayerFeaturesURI layerID) = Inr response' \<and>
           StatusCode response' = 200 \<and>
           json_Decode e (Body response') = Inr apiResponse' \<and>
           Error apiResponse' = None \<and> Layer apiResponse' = Some layer'))"
  by (auto simp: fetchLayerVulnerabilities_def Let_def
           split: sum.splits if_splits option.splits)

theorem fetch_dereferences_layer_witness:
  "fst (fetchLayerVulnerabilities
      \<lparr>http_Get = (\<lambda>u. Inr \<lparr>StatusCode = 200, Body = ''{}''\<rparr>),
       json_Decode = (\<lambda>b. Inr \<lparr>Layer = None, Error = None\<rparr>),
       color_YellowString = (\<lambda>s. s)\<rparr>
      ''http://clair:6060'' ''L3'')
     = Panic NilPointerDereference"
  using fetch_dereferences_layer
      [of "\<lparr>http_Get = (\<lambda>u. Inr \<lparr>StatusCode = 200, Body = ''{}''\<rparr>),
            json_Decode = (\<lambda>b. Inr \<lparr>Layer = None, Error = None\<rparr>),
            color_YellowString = (\<lambda>s. s)\<rparr>"
          "''http://clair:6060''" "''L3''"
          "\<lparr>StatusCode = 200, Body = ''{}''\<rparr>"
          "\<lparr>Layer = None, Error = None\<rparr>"]
  by simp

section \<open>The claim about the orchestrator\<close>

text \<open>
  C4 says that the temporary directory is removed exactly once on every exit path. In
  the code the removal is a deferred call, and the fatal paths end the process with
  \<open>log.Fatalf\<close>, which does not run deferred calls. What the code does: once the
  temporary directory exists, it is removed exactly once when \<open>start\<close> returns or
  panics, and never when the run ends by \<open>log.Fatalf\<close> (the fetch failed, or the
  image was rejected, or a helper ended the process).
\<close>

theorem start_removes_workspace_unless_exit:
  "createTmpPath h tmpPrefix = Returns tmpPath \<Longrightarrow>
   removals (snd (start e h imageName whitelist clairURL scannerIP)) =
     (case fst (start e h imageName whitelist clairURL scannerIP) of
        Exited n \<Rightarrow> []
      | Returned \<Rightarrow> [tmpPath]
      | Crashed p \<Rightarrow> [tmpPath])"
  by (auto simp: start_def Let_def removals_append dest: getVulnerabilities_result_removals
           split: call.splits outcome.splits option.splits prod.splits)

text \<open>
  A run in which the analyzer answers the request for the last layer with status 500:
  the process exits with status 1 and the temporary directory is left behind.
\<close>

theorem start_removes_workspace_unless_exit_witness:
  "start
      \<lparr>http_Get = (\<lambda>u. Inr \<lparr>StatusCode = 500, Body = ''boom''\<rparr>),
       json_Decode = (\<lambda>b. Inr \<lparr>Layer = None, Error = None\<rparr>),
       color_YellowString = (\<lambda>s. s)\<rparr>
      \<lparr>createTmpPath = (\<lambda>prefix. Returns (''/tmp/'' @ prefix @ ''1'')),
       saveDockerImage = (\<lambda>image path. Returns ()),
       getImageLayerIds = (\<lambda>path. Returns [''L1'', ''L2'']),
       httpFileServer = (\<lambda>path port. Returns ()),
       analyzeLayers = (\<lambda>ids url ip. Returns ())\<rparr>
      ''myapp:1.0'' \<lparr>GeneralWhitelist = fmempty, Images = fmempty\<rparr>
      ''http://clair:6060'' ''localhost''
    = (Exited 1,
       [HttpGet ''http://clair:6060/v1/layers/L2?vulnerabilities'',
        LogFatalf ''Analyzing failed: Got response 500 with message boom''])
   \<and> removals (snd (start
      \<lparr>http_Get = (\<lambda>u. Inr \<lparr>StatusCode = 500, Body = ''boom''\<rparr>),
       json_Decode = (\<lambda>b. Inr \<lparr>Layer = None, Error = None\<rparr>),
       color_YellowString = (\<lambda>s. s)\<rparr>
      \<lparr>createTmpPath = (\<lambda>prefix. Returns (''/tmp/'' @ prefix @ ''1'')),
       saveDockerImage = (\<lambda>image path. Returns ()),
       getImageLayerIds = (\<lambda>path. Returns [''L1'', ''L2'']),
       httpFileServer = (\<lambda>path port. Returns ()),
       analyzeLayers = (\<lambda>ids url ip. Returns ())\<rparr>
      ''myapp:1.0'' \<lparr>GeneralWhitelist = fmempty, Images = fmempty\<rparr>
      ''http://clair:6060'' ''localhost'')) = []"
proof -
  let ?e = "\<lparr>http_Get = (\<lambda>u. Inr \<lparr>StatusCode = 500, Body = ''boom''\<rparr>),
       json_Decode = (\<lambda>b. Inr \<lparr>Layer = None, Error = None\<rparr>),
       color_YellowString = (\<lambda>s. s)\<rparr>"
  let ?h = "\<lparr>createTmpPath = (\<lambda>prefix. Returns (''/tmp/'' @ prefix @ ''1'')),
       saveDockerImage = (\<lambda>image path. Returns ()),
       getImageLayerIds = (\<lambda>path. Returns [''L1'', ''L2'']),
       httpFileServer = (\<lambda>path port. Returns ()),
       analyzeLayers = (\<lambda>ids url ip. Returns ())\<rparr>"
  let ?w = "\<lparr>GeneralWhitelist = fmempty, Images = fmempty\<rparr>"
  have g: "getVulnerabilities ?e ''http://clair:6060'' [''L1'', ''L2''] =
      (Failed (GoError ''Got response 500 with message boom''),
       [HttpGet ''http://clair:6060/v1/layers/L2?vulnerabilities''])"
    by (simp add: getVulnerabilities_def fetchLayerVulnerabilities_def getLayerFeaturesURI_def
        fmt_d_def nat_digits.simps digit_char_def)
  have s: "start ?e ?h ''myapp:1.0'' ?w ''http://clair:6060'' ''localhost'' =
      (Exited 1,
       [HttpGet ''http://clair:6060/v1/layers/L2?vulnerabilities'',
        LogFatalf ''Analyzing failed: Got response 500 with message boom''])"
    by (simp add: start_def g)
  have c: "createTmpPath ?h tmpPrefix = Returns (''/tmp/'' @ tmpPrefix @ ''1'')"
    by simp
  show ?thesis
    using start_removes_workspace_unless_exit
      [OF c, of ?e "''myapp:1.0''" ?w "''http://clair:6060''" "''localhost''"] s
    by simp
qed

end
